theory Spec2Isabelle
  imports Main "HOL-Library.Char_ord" "HOL-Library.List_Lexorder"
begin

section \<open>Appointment model (src/backend/src/models/Appointment.js)\<close>

text \<open>
  The fields of the Appointment schema that \<open>checkConflict\<close> reads. The schema's other
  fields (patient, type, room, fee, ...) are never inspected by the conflict check.
  \<^item> \<open>_id\<close> is a MongoDB ObjectId, a 12-byte value, modelled as a natural number. An
    ObjectId (and its 24-digit hexadecimal string) is always truthy in JavaScript, so the
    optional argument \<open>excludeId\<close> is an \<open>objectId option\<close> whose \<open>None\<close> is
    the default \<open>null\<close>.
  \<^item> \<open>date\<close> is a JavaScript Date: its time value, milliseconds since the epoch.
  \<^item> \<open>startTime\<close> and \<open>endTime\<close> are JavaScript strings. The relational operators
    on two strings compare them lexicographically by code unit, a proper prefix being
    smaller: the order of \<open>List_Lexorder\<close> over \<open>Char_ord\<close>. A \<open>char\<close> stands
    for a code unit below 256, which covers the ASCII text of an \<open>HH:MM\<close> time; the
    theorems below use the order only through the laws of a linear order.
  \<^item> \<open>status\<close> ranges over the schema's enum.
\<close>

datatype status = Scheduled | Confirmed | Completed | Cancelled | NoShow | Rescheduled

type_synonym objectId = nat

record appointment =
  app_id :: objectId
  practitioner :: string
  date :: int
  startTime :: string
  endTime :: string
  status :: status

subsection \<open>Dates in local time\<close>

text \<open>
  \<open>Date.prototype.setHours\<close> works in the local time of the server. Its steps are
  those of ECMAScript: \<open>LocalTime\<close>, \<open>Day\<close>, \<open>MakeTime\<close>, \<open>MakeDate\<close> and
  \<open>UTC\<close>. The local time zone is the parameter \<open>tz\<close>, ECMAScript's
  \<open>LocalTZA(t, isUTC)\<close>: the offset of local time from UTC in milliseconds, at the UTC
  instant \<open>t\<close> when \<open>isUTC\<close> is true and at the local time value \<open>t\<close> when it
  is false (a local time that a clock change repeats or skips takes the offset from before
  the change). Daylight-saving rules are therefore part of the parameter.
\<close>

type_synonym zone = "int \<Rightarrow> bool \<Rightarrow> int"

definition msPerDay :: int where
  "msPerDay = 86400000"

definition LocalTime :: "zone \<Rightarrow> int \<Rightarrow> int" where
  "LocalTime tz t = t + tz t True"

definition UTC :: "zone \<Rightarrow> int \<Rightarrow> int" where
  "UTC tz t = t - tz t False"

definition Day :: "int \<Rightarrow> int" where
  "Day t = t div msPerDay"

definition MakeTime :: "int \<Rightarrow> int \<Rightarrow> int \<Rightarrow> int \<Rightarrow> int" where
  "MakeTime hour minute sec ms = hour * 3600000 + minute * 60000 + sec * 1000 + ms"

definition MakeDate :: "int \<Rightarrow> int \<Rightarrow> int" where
  "MakeDate day time = day * msPerDay + time"

definition setHours :: "zone \<Rightarrow> int \<Rightarrow> int \<Rightarrow> int \<Rightarrow> int \<Rightarrow> int \<Rightarrow> int" where
  "setHours tz t hour minute sec ms =
     UTC tz (MakeDate (Day (LocalTime tz t)) (MakeTime hour minute sec ms))"

definition startOfDay :: "zone \<Rightarrow> int \<Rightarrow> int" where
  "startOfDay tz d = setHours tz d 0 0 0 0"

definition endOfDay :: "zone \<Rightarrow> int \<Rightarrow> int" where
  "endOfDay tz d = setHours tz d 23 59 59 999"

text \<open>
  A time value is a valid Date only within 8.64e15 ms of the epoch (\<open>TimeClip\<close>);
  beyond, the Date is invalid and the mapper rejects the query with a cast error before any
  lookup. The model computes with unclipped integers and covers the calls whose date and
  day bounds are valid, which \<open>windowValid\<close> states.
\<close>

definition validTime :: "int \<Rightarrow> bool" where
  "validTime t \<longleftrightarrow> \<bar>t\<bar> \<le> 8640000000000000"

definition windowValid :: "zone \<Rightarrow> int \<Rightarrow> bool" where
  "windowValid tz d \<longleftrightarrow> validTime d \<and> validTime (startOfDay tz d) \<and> validTime (endOfDay tz d)"

subsection \<open>The query\<close>

text \<open>
  The schema declares \<open>practitioner\<close> with \<open>trim: true\<close>, and the mapper casts a
  filter value through the setters of its path: the query compares the stored practitioner
  with the trimmed argument. \<open>String.prototype.trim\<close> strips white space and line
  terminators from both ends; below code unit 256 these are the seven characters listed.
\<close>

definition isWhiteSpace :: "char \<Rightarrow> bool" where
  "isWhiteSpace c \<longleftrightarrow>
     c \<in> set [CHR 0x09, CHR 0x0A, CHR 0x0B, CHR 0x0C, CHR 0x0D, CHR 0x20, CHR 0xA0]"

definition trim :: "string \<Rightarrow> string" where
  "trim s = rev (dropWhile isWhiteSpace (rev (dropWhile isWhiteSpace s)))"

text \<open>
  The query object of \<open>checkConflict\<close>: equality on \<open>practitioner\<close>, \<open>$gte\<close> and
  \<open>$lte\<close> on \<open>date\<close>, \<open>$nin\<close> on \<open>status\<close> and, only when \<open>excludeId\<close> is
  given, \<open>$ne\<close> on \<open>_id\<close>.
\<close>

record query =
  q_practitioner :: string
  q_date_gte :: int
  q_date_lte :: int
  q_status_nin :: "status list"
  q_id_ne :: "objectId option"

definition buildQuery :: "zone \<Rightarrow> string \<Rightarrow> int \<Rightarrow> objectId option \<Rightarrow> query" where
  "buildQuery tz p d excludeId =
     \<lparr> q_practitioner = trim p,
       q_date_gte = startOfDay tz d,
       q_date_lte = endOfDay tz d,
       q_status_nin = [Cancelled, NoShow],
       q_id_ne = excludeId \<rparr>"

definition matchesQuery :: "query \<Rightarrow> appointment \<Rightarrow> bool" where
  "matchesQuery q app \<longleftrightarrow>
     practitioner app = q_practitioner q \<and>
     q_date_gte q \<le> date app \<and> date app \<le> q_date_lte q \<and>
     status app \<notin> set (q_status_nin q) \<and>
     (case q_id_ne q of None \<Rightarrow> True | Some i \<Rightarrow> app_id app \<noteq> i)"

text \<open>
  The collection is the list of its documents; \<open>find\<close> returns the matching ones in
  collection order. A failing data-access call is outside this model.
\<close>

definition findAppointments :: "appointment list \<Rightarrow> query \<Rightarrow> appointment list" where
  "findAppointments store q = filter (matchesQuery q) store"

subsection \<open>The overlap scan\<close>

text \<open>The \<open>for\<close> loop of \<open>checkConflict\<close>, returning at the first conflict.\<close>

fun scanConflicts :: "string \<Rightarrow> string \<Rightarrow> appointment list \<Rightarrow> bool" where
  "scanConflicts newStart newEnd [] = False"
| "scanConflicts newStart newEnd (app # apps) =
     (let existingStart = startTime app; existingEnd = endTime app in
      if (newStart \<ge> existingStart \<and> newStart < existingEnd) \<or>
         (newEnd > existingStart \<and> newEnd \<le> existingEnd) \<or>
         (newStart \<le> existingStart \<and> newEnd \<ge> existingEnd)
      then True
      else scanConflicts newStart newEnd apps)"

definition checkConflict ::
  "zone \<Rightarrow> appointment list \<Rightarrow> string \<Rightarrow> int \<Rightarrow> string \<Rightarrow> string \<Rightarrow> objectId option \<Rightarrow> bool" where
  "checkConflict tz store p d startTime' endTime' excludeId =
     (let appointments = findAppointments store (buildQuery tz p d excludeId);
          newStart = startTime';
          newEnd = endTime'
      in scanConflicts newStart newEnd appointments)"

subsection \<open>Names for what the code does\<close>

text \<open>
  The three disjuncts of the scan's test, for one loaded appointment with interval
  \<open>[existingStart, existingEnd)\<close>.
\<close>

definition startInsideExisting :: "string \<Rightarrow> appointment \<Rightarrow> bool" where
  "startInsideExisting newStart app \<longleftrightarrow> startTime app \<le> newStart \<and> newStart < endTime app"

definition endInsideExisting :: "string \<Rightarrow> appointment \<Rightarrow> bool" where
  "endInsideExisting newEnd app \<longleftrightarrow> startTime app < newEnd \<and> newEnd \<le> endTime app"

definition containsExisting :: "string \<Rightarrow> string \<Rightarrow> appointment \<Rightarrow> bool" where
  "containsExisting newStart newEnd app \<longleftrightarrow> newStart \<le> startTime app \<and> endTime app \<le> newEnd"

definition conflictsWith :: "string \<Rightarrow> string \<Rightarrow> appointment \<Rightarrow> bool" where
  "conflictsWith newStart newEnd app \<longleftrightarrow>
     startInsideExisting newStart app \<or> endInsideExisting newEnd app \<or>
     containsExisting newStart newEnd app"

text \<open>
  The candidates are the appointments the query loads; \<open>isCandidate\<close> spells the query's
  conditions out for one appointment (lemma \<open>matchesQuery_iff\<close> below).
\<close>

definition inDayWindow :: "zone \<Rightarrow> int \<Rightarrow> int \<Rightarrow> bool" where
  "inDayWindow tz d t \<longleftrightarrow> startOfDay tz d \<le> t \<and> t \<le> endOfDay tz d"

definition notCancelled :: "appointment \<Rightarrow> bool" where
  "notCancelled app \<longleftrightarrow> status app \<noteq> Cancelled \<and> status app \<noteq> NoShow"

definition notExcluded :: "objectId option \<Rightarrow> appointment \<Rightarrow> bool" where
  "notExcluded excludeId app \<longleftrightarrow> excludeId \<noteq> Some (app_id app)"

definition isCandidate :: "zone \<Rightarrow> string \<Rightarrow> int \<Rightarrow> objectId option \<Rightarrow> appointment \<Rightarrow> bool" where
  "isCandidate tz p d excludeId app \<longleftrightarrow>
     practitioner app = trim p \<and> inDayWindow tz d (date app) \<and> notCancelled app \<and>
     notExcluded excludeId app"

definition candidates ::
  "zone \<Rightarrow> appointment list \<Rightarrow> string \<Rightarrow> int \<Rightarrow> objectId option \<Rightarrow> appointment list" where
  "candidates tz store p d excludeId = findAppointments store (buildQuery tz p d excludeId)"

subsection \<open>Vocabulary of the specification\<close>

text \<open>
  Half-open intervals. Two intervals overlap when their intersection
  \<open>[max of the starts, min of the ends)\<close> is not empty.
\<close>

definition wellFormed :: "appointment \<Rightarrow> bool" where
  "wellFormed app \<longleftrightarrow> startTime app < endTime app"

definition overlaps :: "appointment \<Rightarrow> appointment \<Rightarrow> bool" where
  "overlaps a b \<longleftrightarrow> max (startTime a) (startTime b) < min (endTime a) (endTime b)"


text \<open>
  The calendar day of an instant, on a clock that runs \<open>c\<close> milliseconds ahead of UTC,
  is the number of whole days since the epoch on that clock. The invariant of the data
  model speaks of the stored appointments of one practitioner on one calendar day whose
  status is neither Cancelled nor No-Show; it is written here over the store, with no
  reference to the query.
\<close>

definition localDay :: "int \<Rightarrow> int \<Rightarrow> int" where
  "localDay c t = (t + c) div msPerDay"



text \<open>
  The zone keeps the offset \<open>c\<close> on the day of \<open>d\<close>: at \<open>d\<close> itself and at the
  first and the last millisecond of its local day. A zone without clock changes, as
  \<open>fixedOffset\<close>, does so on every day; a zone with daylight saving does so on every
  day without a change.
\<close>

definition localMidnight :: "int \<Rightarrow> int \<Rightarrow> int" where
  "localMidnight c d = localDay c d * msPerDay"

definition steadyOffset :: "zone \<Rightarrow> int \<Rightarrow> int \<Rightarrow> bool" where
  "steadyOffset tz d c \<longleftrightarrow>
     tz d True = c \<and> tz (localMidnight c d) False = c \<and>
     tz (localMidnight c d + 86399999) False = c"

definition fixedOffset :: "int \<Rightarrow> zone" where
  "fixedOffset c = (\<lambda>t isUTC. c)"

text \<open>A document carrying the proposed interval.\<close>

definition proposed :: "objectId \<Rightarrow> string \<Rightarrow> int \<Rightarrow> string \<Rightarrow> string \<Rightarrow> status \<Rightarrow> appointment" where
  "proposed i name d newStart newEnd st =
     \<lparr> app_id = i, practitioner = name, date = d, startTime = newStart, endTime = newEnd,
       status = st \<rparr>"

subsection \<open>Scenarios\<close>

text \<open>
  The scenario of the specification's concrete test: practitioner "Dr. A" with one
  Scheduled appointment on 2024-03-01 (midnight UTC is 1709251200000 ms) from 14:00 to
  15:00.
\<close>

definition day_2024_03_01 :: int where
  "day_2024_03_01 = 1709251200000"

definition drA_appointment :: appointment where
  "drA_appointment =
     \<lparr> app_id = 1, practitioner = ''Dr. A'', date = day_2024_03_01,
       startTime = ''14:00'', endTime = ''15:00'', status = Scheduled \<rparr>"

definition drA_store :: "appointment list" where
  "drA_store = [drA_appointment]"

text \<open>
  A second stored appointment of "Dr. A" on that day, without duration (the schema does
  not require \<open>startTime < endTime\<close>), and a later one of an hour.
\<close>

definition drA_instant :: appointment where
  "drA_instant = drA_appointment\<lparr>app_id := 2, startTime := ''14:30'', endTime := ''14:30''\<rparr>"

definition drA_later :: appointment where
  "drA_later = drA_appointment\<lparr>app_id := 3, startTime := ''16:00'', endTime := ''17:00''\<rparr>"

text \<open>
  A zone that puts its clocks back one hour: UTC-3 before 2024-04-07 03:00 UTC and UTC-4
  from then on, so that the local hour from 23:00 to 24:00 of 6 April runs twice (the rule
  of America/Santiago that night). Local time values before local midnight of 7 April take
  the earlier offset. The instant \<open>repeatedHour\<close> is 2024-04-07 03:30 UTC, which is 23:30
  of 6 April in the second run of that hour.
\<close>

definition fallBackZone :: zone where
  "fallBackZone t isUTC =
     (if isUTC then (if t < 1712458800000 then - 10800000 else - 14400000)
      else (if t < 1712448000000 then - 10800000 else - 14400000))"



section \<open>Patient service (src/backend/src/services/patientService.js)\<close>

text \<open>
  A thrown JavaScript \<open>Error\<close>: its message and the \<open>statusCode\<close> property that the
  services attach, \<open>None\<close> while the property is absent. \<open>!error.statusCode\<close> holds
  for an absent property and for the number zero.
\<close>

record jsError =
  message :: string
  statusCode :: "nat option"

definition falsyStatusCode :: "jsError \<Rightarrow> bool" where
  "falsyStatusCode e \<longleftrightarrow> (case statusCode e of None \<Rightarrow> True | Some c \<Rightarrow> c = 0)"

text \<open>
  The argument of \<open>createPatient\<close>: the paths the Patient schema declares \<open>required\<close>,
  each possibly absent from the object the caller passes.
\<close>

record patientData =
  pd_firstName :: "string option"
  pd_lastName :: "string option"
  pd_idNumber :: "string option"
  pd_dateOfBirth :: "int option"
  pd_gender :: "string option"
  pd_phone :: "string option"

text \<open>
  \<open>Patient.findOne\<close> and \<open>Patient.create\<close> belong to the object-document mapper, a
  library outside the repository. They are parameters of the model: \<open>findOne\<close> maps the
  store and the filter value to the document found, if any, or to the error it throws;
  \<open>create\<close> maps the store and the data to the created document and the new store, or to
  the error it throws. A call that throws leaves the store as it was.

  The \<open>catch\<close> block of \<open>createPatient\<close>: add status code 500 if none is present,
  then throw the error again.
\<close>

definition catchBlock :: "jsError \<Rightarrow> jsError" where
  "catchBlock error = (if falsyStatusCode error then error\<lparr>statusCode := Some 500\<rparr> else error)"

definition createPatient ::
  "('s \<Rightarrow> string option \<Rightarrow> jsError + 'p option) \<Rightarrow>
   ('s \<Rightarrow> patientData \<Rightarrow> jsError + 'p \<times> 's) \<Rightarrow>
   's \<Rightarrow> patientData \<Rightarrow> (jsError + 'p) \<times> 's" where
  "createPatient findOne create store patientData =
     (case findOne store (pd_idNumber patientData) of
        Inl error \<Rightarrow> (Inl (catchBlock error), store)
      | Inr (Some existingPatient) \<Rightarrow>
          (Inl (catchBlock
                 \<lparr> message = ''Patient with this ID number already exists'',
                   statusCode = Some 400 \<rparr>), store)
      | Inr None \<Rightarrow>
          (case create store patientData of
             Inl error \<Rightarrow> (Inl (catchBlock error), store)
           | Inr (patient, store') \<Rightarrow> (Inr patient, store')))"

subsection \<open>An in-memory stand-in for the Patient model\<close>

text \<open>
  A stand-in for the mapper over a list of documents, used to run \<open>createPatient\<close> on
  concrete inputs. It enforces what the Patient schema (src/unnamed/part_001) declares for
  the modelled paths: the \<open>required\<close> validators, whose messages are the schema's, the
  \<open>enum\<close> of \<open>gender\<close>, the \<open>trim\<close> setters (applied to stored values and
  to the filter value of a lookup), the default of \<open>isActive\<close> and the unique index on
  \<open>idNumber\<close>. The schema's optional paths and the generated \<open>_id\<close> and timestamps
  are left out. When several paths fail, the messages of the absent required paths come
  first, the last declared path first, and those of the paths present in the data follow in
  the order of the schema. The theorems about \<open>createPatient\<close> hold for every
  \<open>findOne\<close> and \<open>create\<close>.
\<close>

record patient =
  p_firstName :: string
  p_lastName :: string
  p_idNumber :: string
  p_dateOfBirth :: int
  p_gender :: string
  p_phone :: string
  p_isActive :: bool

definition memFindOne :: "patient list \<Rightarrow> string option \<Rightarrow> jsError + patient option" where
  "memFindOne store k = Inr (List.find (\<lambda>p. Some (p_idNumber p) = map_option trim k) store)"

definition absentPath :: "string \<Rightarrow> string \<Rightarrow> 'a option \<Rightarrow> string list" where
  "absentPath path msg v = (case v of None \<Rightarrow> [path @ '': '' @ msg] | Some _ \<Rightarrow> [])"

definition emptyString :: "string \<Rightarrow> string \<Rightarrow> string option \<Rightarrow> string list" where
  "emptyString path msg v =
     (case v of None \<Rightarrow> []
      | Some s \<Rightarrow> if trim s = [] then [path @ '': '' @ msg] else [])"

definition validationErrors :: "patientData \<Rightarrow> string list" where
  "validationErrors pd =
     absentPath ''phone'' ''Phone number is required'' (pd_phone pd) @
     absentPath ''gender'' ''Gender is required'' (pd_gender pd) @
     absentPath ''dateOfBirth'' ''Date of birth is required'' (pd_dateOfBirth pd) @
     absentPath ''idNumber'' ''ID number is required'' (pd_idNumber pd) @
     absentPath ''lastName'' ''Last name is required'' (pd_lastName pd) @
     absentPath ''firstName'' ''First name is required'' (pd_firstName pd) @
     emptyString ''firstName'' ''First name is required'' (pd_firstName pd) @
     emptyString ''lastName'' ''Last name is required'' (pd_lastName pd) @
     emptyString ''idNumber'' ''ID number is required'' (pd_idNumber pd) @
     (case pd_gender pd of
        None \<Rightarrow> []
      | Some g \<Rightarrow>
          if g = [] then [''gender: Gender is required'']
          else if g \<in> set [''Male'', ''Female'', ''Other''] then []
          else [''gender: `'' @ g @ ''` is not a valid enum value for path `gender`.'']) @
     emptyString ''phone'' ''Phone number is required'' (pd_phone pd)"

fun joinWith :: "string \<Rightarrow> string list \<Rightarrow> string" where
  "joinWith sep [] = []"
| "joinWith sep [x] = x"
| "joinWith sep (x # y # ys) = x @ sep @ joinWith sep (y # ys)"

definition buildDocument :: "patientData \<Rightarrow> patient option" where
  "buildDocument pd =
     (case (pd_firstName pd, pd_lastName pd, pd_idNumber pd, pd_dateOfBirth pd, pd_gender pd,
            pd_phone pd) of
        (Some f, Some l, Some i, Some b, Some g, Some ph) \<Rightarrow>
          Some \<lparr> p_firstName = trim f, p_lastName = trim l, p_idNumber = trim i,
                 p_dateOfBirth = b, p_gender = g, p_phone = trim ph, p_isActive = True \<rparr>
      | _ \<Rightarrow> None)"

definition validationError :: "string list \<Rightarrow> jsError" where
  "validationError msgs =
     \<lparr> message = ''Patient validation failed: '' @ joinWith '', '' msgs, statusCode = None \<rparr>"

definition memCreate :: "patient list \<Rightarrow> patientData \<Rightarrow> jsError + patient \<times> patient list" where
  "memCreate store pd =
     (if validationErrors pd \<noteq> [] then Inl (validationError (validationErrors pd))
      else
        (case buildDocument pd of
           None \<Rightarrow> Inl (validationError (validationErrors pd))
         | Some doc \<Rightarrow>
             if List.find (\<lambda>p. p_idNumber p = p_idNumber doc) store \<noteq> None
             then Inl \<lparr> message = ''E11000 duplicate key error'', statusCode = None \<rparr>
             else Inr (doc, store @ [doc])))"

definition anaData :: patientData where
  "anaData =
     \<lparr> pd_firstName = Some ''Ana'', pd_lastName = Some ''Rojas'', pd_idNumber = Some ''12345678-9'',
       pd_dateOfBirth = Some 631152000000, pd_gender = Some ''Female'',
       pd_phone = Some ''+56 9 1234 5678'' \<rparr>"

definition anaPatient :: patient where
  "anaPatient =
     \<lparr> p_firstName = ''Ana'', p_lastName = ''Rojas'', p_idNumber = ''12345678-9'',
       p_dateOfBirth = 631152000000, p_gender = ''Female'', p_phone = ''+56 9 1234 5678'',
       p_isActive = True \<rparr>"

definition namelessData :: patientData where
  "namelessData = anaData\<lparr>pd_firstName := None\<rparr>"

section \<open>Basic facts\<close>

subsection \<open>Days and zones\<close>

lemma msPerDay_pos: "0 < msPerDay"
  by (simp add: msPerDay_def)

lemma day_bounds:
  fixes x k D :: int
  assumes "0 < D"
  shows "k * D \<le> x \<and> x < k * D + D \<longleftrightarrow> x div D = k"
proof
  assume inside: "k * D \<le> x \<and> x < k * D + D"
  have "x = D * k + (x - k * D)"
    by (simp add: algebra_simps)
  moreover from inside have "0 \<le> x - k * D" "x - k * D < D"
    by simp_all
  ultimately show "x div D = k"
    by (rule int_div_pos_eq)
next
  assume "x div D = k"
  then have k: "k * D = x - x mod D"
    by (simp add: minus_mod_eq_div_mult)
  from assms have "0 \<le> x mod D" "x mod D < D"
    by simp_all
  with k show "k * D \<le> x \<and> x < k * D + D"
    by simp
qed

lemma startOfDay_steady:
  assumes "steadyOffset tz d c"
  shows "startOfDay tz d = localMidnight c d - c"
  using assms
  by (simp add: steadyOffset_def startOfDay_def setHours_def UTC_def MakeDate_def MakeTime_def
      Day_def LocalTime_def localMidnight_def localDay_def)

lemma endOfDay_steady:
  assumes "steadyOffset tz d c"
  shows "endOfDay tz d = localMidnight c d + 86399999 - c"
  using assms
  by (simp add: steadyOffset_def endOfDay_def setHours_def UTC_def MakeDate_def MakeTime_def
      Day_def LocalTime_def localMidnight_def localDay_def)

text \<open>
  On a day of steady offset the window between the two bounds is the local calendar day.
\<close>

lemma inDayWindow_steady:
  assumes "steadyOffset tz d c"
  shows "inDayWindow tz d t \<longleftrightarrow> localDay c t = localDay c d"
proof -
  have "inDayWindow tz d t \<longleftrightarrow>
      localDay c d * msPerDay \<le> t + c \<and> t + c < localDay c d * msPerDay + msPerDay"
    by (auto simp: inDayWindow_def startOfDay_steady [OF assms] endOfDay_steady [OF assms]
        localMidnight_def msPerDay_def)
  also have "\<dots> \<longleftrightarrow> (t + c) div msPerDay = localDay c d"
    using msPerDay_pos by (rule day_bounds)
  finally show ?thesis
    by (simp add: localDay_def)
qed

lemma steadyOffset_fixed: "steadyOffset (fixedOffset c) d c"
  by (simp add: steadyOffset_def fixedOffset_def)

lemma inDayWindow_self: "inDayWindow (fixedOffset c) d d"
  by (simp add: inDayWindow_steady [OF steadyOffset_fixed])

subsection \<open>Trimming\<close>

lemma trim_middle: "dropWhile isWhiteSpace s = trim s @ rev (takeWhile isWhiteSpace (rev (dropWhile isWhiteSpace s)))"
proof -
  let ?m = "dropWhile isWhiteSpace s"
  have "rev ?m = takeWhile isWhiteSpace (rev ?m) @ dropWhile isWhiteSpace (rev ?m)"
    by simp
  then have "rev (rev ?m) =
      rev (dropWhile isWhiteSpace (rev ?m)) @ rev (takeWhile isWhiteSpace (rev ?m))"
    by (metis rev_append)
  then show ?thesis
    by (simp add: trim_def)
qed

text \<open>
  \<open>trim\<close> removes white space at both ends and nothing else, and leaves no white
  space at either end.
\<close>

lemma trim_decompose:
  "\<exists>l r. s = l @ trim s @ r \<and> (\<forall>c \<in> set l. isWhiteSpace c) \<and> (\<forall>c \<in> set r. isWhiteSpace c)"
proof -
  let ?m = "dropWhile isWhiteSpace s"
  let ?r = "rev (takeWhile isWhiteSpace (rev ?m))"
  have "s = takeWhile isWhiteSpace s @ ?m"
    by simp
  with trim_middle [of s] have "s = takeWhile isWhiteSpace s @ trim s @ ?r"
    by simp
  moreover have "\<forall>c \<in> set (takeWhile isWhiteSpace s). isWhiteSpace c"
    by (auto dest: set_takeWhileD)
  moreover have "\<forall>c \<in> set ?r. isWhiteSpace c"
    by (auto dest: set_takeWhileD)
  ultimately show ?thesis
    by blast
qed

lemma trim_ends:
  assumes "trim s \<noteq> []"
  shows "\<not> isWhiteSpace (hd (trim s)) \<and> \<not> isWhiteSpace (last (trim s))"
proof -
  let ?m = "dropWhile isWhiteSpace s"
  let ?k = "dropWhile isWhiteSpace (rev ?m)"
  from assms have k: "?k \<noteq> []"
    by (simp add: trim_def)
  then have "\<not> isWhiteSpace (hd ?k)"
    by (rule hd_dropWhile)
  with k have at_end: "\<not> isWhiteSpace (last (trim s))"
    by (simp add: trim_def last_rev)
  from assms trim_middle [of s] have "hd ?m = hd (trim s)" and "?m \<noteq> []"
    by (metis hd_append2, metis append_is_Nil_conv)
  moreover from \<open>?m \<noteq> []\<close> have "\<not> isWhiteSpace (hd ?m)"
    by (rule hd_dropWhile)
  ultimately show ?thesis
    using at_end by simp
qed

lemma trim_drA: "trim ''Dr. A'' = ''Dr. A''" "trim ''Dr. A '' = ''Dr. A''"
  by (simp_all add: trim_def isWhiteSpace_def)

subsection \<open>The query and the scan\<close>

lemma matchesQuery_iff:
  "matchesQuery (buildQuery tz p d excludeId) app \<longleftrightarrow> isCandidate tz p d excludeId app"
  by (cases excludeId)
     (auto simp: matchesQuery_def buildQuery_def isCandidate_def inDayWindow_def
        notCancelled_def notExcluded_def)

lemma set_candidates:
  "set (candidates tz store p d excludeId) = {app \<in> set store. isCandidate tz p d excludeId app}"
  by (simp add: candidates_def findAppointments_def matchesQuery_iff)

lemma scanConflicts_iff:
  "scanConflicts newStart newEnd apps \<longleftrightarrow> (\<exists>app \<in> set apps. conflictsWith newStart newEnd app)"
  by (induction apps)
     (auto simp: conflictsWith_def startInsideExisting_def endInsideExisting_def
        containsExisting_def Let_def)

lemma checkConflict_iff:
  "checkConflict tz store p d newStart newEnd excludeId \<longleftrightarrow>
     (\<exists>app \<in> set store. isCandidate tz p d excludeId app \<and> conflictsWith newStart newEnd app)"
  unfolding checkConflict_def Let_def scanConflicts_iff
  using set_candidates [of tz store p d excludeId]
  by (auto simp: candidates_def)


subsection \<open>Intervals\<close>

lemma overlaps_common_instant:
  "overlaps a b \<longleftrightarrow>
     (\<exists>t. startTime a \<le> t \<and> t < endTime a \<and> startTime b \<le> t \<and> t < endTime b)"
proof
  assume "overlaps a b"
  then have "max (startTime a) (startTime b) < min (endTime a) (endTime b)"
    by (simp add: overlaps_def)
  then show "\<exists>t. startTime a \<le> t \<and> t < endTime a \<and> startTime b \<le> t \<and> t < endTime b"
    by (intro exI [of _ "max (startTime a) (startTime b)"]) simp
next
  assume "\<exists>t. startTime a \<le> t \<and> t < endTime a \<and> startTime b \<le> t \<and> t < endTime b"
  then obtain t where "startTime a \<le> t" "t < endTime a" "startTime b \<le> t" "t < endTime b"
    by blast
  then show "overlaps a b"
    by (auto simp: overlaps_def)
qed

lemma overlaps_imp_conflictsWith:
  assumes "overlaps x app" "startTime x = newStart" "endTime x = newEnd"
  shows "conflictsWith newStart newEnd app"
proof -
  from assms have lt: "newStart < endTime app" "startTime app < newEnd"
    by (auto simp: overlaps_def)
  show ?thesis
  proof (cases "startTime app \<le> newStart")
    case True
    with lt show ?thesis
      by (simp add: conflictsWith_def startInsideExisting_def)
  next
    case False
    show ?thesis
    proof (cases "newEnd \<le> endTime app")
      case True
      with lt show ?thesis
        by (simp add: conflictsWith_def endInsideExisting_def)
    next
      case False
      with \<open>\<not> startTime app \<le> newStart\<close>
      have "newStart \<le> startTime app" "endTime app \<le> newEnd"
        by simp_all
      then show ?thesis
        by (simp add: conflictsWith_def containsExisting_def)
    qed
  qed
qed

lemma conflictsWith_imp_overlaps:
  assumes "conflictsWith newStart newEnd app" "wellFormed app" "wellFormed x"
    and "startTime x = newStart" "endTime x = newEnd"
  shows "overlaps x app"
  using assms
  by (auto simp: conflictsWith_def startInsideExisting_def endInsideExisting_def
      containsExisting_def wellFormed_def overlaps_def)




lemma checkConflict_single:
  "checkConflict tz [x] p d newStart newEnd e \<longleftrightarrow>
     isCandidate tz p d e x \<and> conflictsWith newStart newEnd x"
  by (simp add: checkConflict_iff)

lemma checkConflict_skip:
  assumes "\<not> (isCandidate tz p d e x \<and> conflictsWith newStart newEnd x)"
  shows "checkConflict tz (xs @ x # ys) p d newStart newEnd e =
         checkConflict tz (xs @ ys) p d newStart newEnd e"
  using assms by (auto simp: checkConflict_iff)

lemma conflictsWith_iff_overlaps:
  assumes "wellFormed app" and "wellFormed x"
    and "startTime x = newStart" and "endTime x = newEnd"
  shows "conflictsWith newStart newEnd app \<longleftrightarrow> overlaps x app"
  using assms conflictsWith_imp_overlaps overlaps_imp_conflictsWith
  by blast


subsection \<open>The scenarios\<close>

lemma drA_times: "startTime drA_appointment = ''14:00''" "endTime drA_appointment = ''15:00''"
  "app_id drA_appointment = 1"
  by (simp_all add: drA_appointment_def)

lemma drA_isCandidate:
  "isCandidate (fixedOffset c) ''Dr. A'' day_2024_03_01 None drA_appointment"
  by (simp add: isCandidate_def notCancelled_def notExcluded_def)
     (simp add: drA_appointment_def inDayWindow_self trim_drA)

lemma drA_later_isCandidate:
  "isCandidate (fixedOffset c) ''Dr. A'' day_2024_03_01 None drA_later"
  using drA_isCandidate [of c]
  by (simp add: isCandidate_def notCancelled_def notExcluded_def drA_later_def)

lemma drA_instant_isCandidate:
  "isCandidate (fixedOffset c) ''Dr. A'' day_2024_03_01 None drA_instant"
  using drA_isCandidate [of c]
  by (simp add: isCandidate_def notCancelled_def notExcluded_def drA_instant_def)



lemma drA_windowValid: "windowValid (fixedOffset 0) day_2024_03_01"
  by (simp add: windowValid_def validTime_def startOfDay_def endOfDay_def setHours_def UTC_def
      MakeDate_def MakeTime_def Day_def LocalTime_def msPerDay_def fixedOffset_def
      day_2024_03_01_def)


text \<open>
  A zone with daylight saving keeps its offset on the days without a clock change:
  \<open>fallBackZone\<close> does on 2024-03-01, at three hours behind UTC.
\<close>

lemma fallBack_steady_in_march: "steadyOffset fallBackZone day_2024_03_01 (- 10800000)"
  by (simp add: steadyOffset_def fallBackZone_def localMidnight_def localDay_def msPerDay_def
      day_2024_03_01_def)

subsection \<open>The patient service\<close>

lemma catchBlock_statusCode:
  "statusCode (catchBlock e) =
     (if statusCode e = None \<or> statusCode e = Some 0 then Some 500 else statusCode e)"
  by (auto simp: catchBlock_def falsyStatusCode_def split: option.splits)

lemma catchBlock_message: "message (catchBlock e) = message e"
  by (simp add: catchBlock_def)

lemma catchBlock_truthy: "\<exists>c. statusCode (catchBlock e) = Some c \<and> c \<noteq> 0"
  by (cases "statusCode e") (auto simp: catchBlock_statusCode)

lemma catchBlock_duplicate:
  "catchBlock \<lparr>message = m, statusCode = Some 400\<rparr> = \<lparr>message = m, statusCode = Some 400\<rparr>"
  by (simp add: catchBlock_def falsyStatusCode_def)

lemma createPatient_error:
  "createPatient findOne create store pd = (Inl e, s) \<Longrightarrow>
     s = store \<and> (\<exists>e0. e = catchBlock e0)"
  by (auto simp: createPatient_def split: sum.splits option.splits prod.splits)

lemma trim_ana:
  "trim ''Ana'' = ''Ana''" "trim ''Rojas'' = ''Rojas''" "trim ''12345678-9'' = ''12345678-9''"
  "trim ''+56 9 1234 5678'' = ''+56 9 1234 5678''"
  by (simp_all add: trim_def isWhiteSpace_def)

lemma memFindOne_ana: "memFindOne [anaPatient] (pd_idNumber anaData) = Inr (Some anaPatient)"
  by (simp add: memFindOne_def anaPatient_def anaData_def trim_ana)

lemma memFindOne_empty: "memFindOne [] k = Inr None"
  by (simp add: memFindOne_def)

lemma validationErrors_ana: "validationErrors anaData = []"
  by (simp add: validationErrors_def absentPath_def emptyString_def anaData_def trim_ana)

lemma memCreate_ana: "memCreate [] anaData = Inr (anaPatient, [anaPatient])"
  by (simp add: memCreate_def validationErrors_ana buildDocument_def)
     (simp add: anaData_def anaPatient_def trim_ana)

lemma validationErrors_nameless:
  "validationErrors namelessData = [''firstName: First name is required'']"
  by (simp add: validationErrors_def absentPath_def emptyString_def namelessData_def anaData_def
      trim_ana)

lemma memCreate_nameless:
  "memCreate [] namelessData =
     Inl \<lparr>message = ''Patient validation failed: firstName: First name is required'',
          statusCode = None\<rparr>"
  by (simp add: memCreate_def validationErrors_nameless validationError_def)

section \<open>The conflict detector\<close>




text \<open>
  Claim C2, as the code has it. Whenever the date and both day bounds are valid dates, the
  candidate list of \<open>checkConflict\<close> is exactly the stored appointments whose
  practitioner equals the given practitioner with its surrounding white space trimmed,
  whose date lies between the instants that \<open>setHours(0, 0, 0, 0)\<close> and
  \<open>setHours(23, 59, 59, 999)\<close> give for the given date (both included), whose status is
  neither Cancelled nor No-Show and whose identifier differs from \<open>excludeId\<close> when one
  is given. The result is true if and only if some candidate satisfies one of the three
  disjuncts; in particular it is false when there is no candidate. The two instants are
  written out from the zone: \<open>midnight\<close> is the local time value of the start of the
  date's local day. On a day of steady offset \<open>c\<close> they enclose exactly the instants of
  the date's calendar day. The trimmed name differs from the given one by white space at
  the two ends only, and has none left there.
\<close>

theorem C2_candidates_and_result:
  assumes "windowValid tz d"
  shows
    "let midnight = (d + tz d True) div 86400000 * 86400000;
         lower = midnight - tz midnight False;
         upper = midnight + 86399999 - tz (midnight + 86399999) False;
         loaded = filter (\<lambda>app. practitioner app = trim p \<and>
                                  lower \<le> date app \<and> date app \<le> upper \<and>
                                  status app \<noteq> Cancelled \<and> status app \<noteq> NoShow \<and>
                                  excludeId \<noteq> Some (app_id app)) store
     in findAppointments store (buildQuery tz p d excludeId) = loaded \<and>
        checkConflict tz store p d newStart newEnd excludeId =
          (\<exists>app \<in> set loaded.
             (startTime app \<le> newStart \<and> newStart < endTime app) \<or>
             (startTime app < newEnd \<and> newEnd \<le> endTime app) \<or>
             (newStart \<le> startTime app \<and> endTime app \<le> newEnd)) \<and>
        (loaded = [] \<longrightarrow> checkConflict tz store p d newStart newEnd excludeId = False) \<and>
        (steadyOffset tz d c \<longrightarrow>
           (lower \<le> t \<and> t \<le> upper \<longleftrightarrow> (t + c) div 86400000 = (d + c) div 86400000)) \<and>
        (\<exists>l r. p = l @ trim p @ r \<and> list_all isWhiteSpace l \<and> list_all isWhiteSpace r) \<and>
        (trim p \<noteq> [] \<longrightarrow> \<not> isWhiteSpace (hd (trim p)) \<and> \<not> isWhiteSpace (last (trim p)))"
proof -
  define midnight where "midnight = (d + tz d True) div 86400000 * 86400000"
  define lower where "lower = midnight - tz midnight False"
  define upper where "upper = midnight + 86399999 - tz (midnight + 86399999) False"
  define loaded where "loaded =
    filter (\<lambda>app. practitioner app = trim p \<and> lower \<le> date app \<and> date app \<le> upper \<and>
                   status app \<noteq> Cancelled \<and> status app \<noteq> NoShow \<and>
                   excludeId \<noteq> Some (app_id app)) store"
  have lower: "startOfDay tz d = lower"
    by (simp add: lower_def midnight_def startOfDay_def setHours_def UTC_def MakeDate_def
        MakeTime_def Day_def LocalTime_def msPerDay_def)
  have upper: "endOfDay tz d = upper"
    by (simp add: upper_def midnight_def endOfDay_def setHours_def UTC_def MakeDate_def
        MakeTime_def Day_def LocalTime_def msPerDay_def)
  have "matchesQuery (buildQuery tz p d excludeId) =
     (\<lambda>app. practitioner app = trim p \<and> lower \<le> date app \<and> date app \<le> upper \<and>
             status app \<noteq> Cancelled \<and> status app \<noteq> NoShow \<and>
             excludeId \<noteq> Some (app_id app))"
    by (rule ext)
       (simp add: matchesQuery_iff isCandidate_def inDayWindow_def notCancelled_def
          notExcluded_def lower upper)
  then have found: "findAppointments store (buildQuery tz p d excludeId) = loaded"
    by (simp add: findAppointments_def loaded_def)
  have result: "checkConflict tz store p d newStart newEnd excludeId =
     (\<exists>app \<in> set loaded.
        (startTime app \<le> newStart \<and> newStart < endTime app) \<or>
        (startTime app < newEnd \<and> newEnd \<le> endTime app) \<or>
        (newStart \<le> startTime app \<and> endTime app \<le> newEnd))"
    by (simp add: checkConflict_def found scanConflicts_iff conflictsWith_def
        startInsideExisting_def endInsideExisting_def containsExisting_def)
  then have none: "loaded = [] \<longrightarrow> checkConflict tz store p d newStart newEnd excludeId = False"
    by simp
  have day: "steadyOffset tz d c \<longrightarrow>
      (lower \<le> t \<and> t \<le> upper \<longleftrightarrow> (t + c) div 86400000 = (d + c) div 86400000)"
  proof
    assume "steadyOffset tz d c"
    from inDayWindow_steady [OF this, of t] show
      "lower \<le> t \<and> t \<le> upper \<longleftrightarrow> (t + c) div 86400000 = (d + c) div 86400000"
      by (simp add: inDayWindow_def lower upper localDay_def msPerDay_def)
  qed
  from trim_decompose [of p]
  have ends: "\<exists>l r. p = l @ trim p @ r \<and> list_all isWhiteSpace l \<and> list_all isWhiteSpace r"
    by (simp add: list_all_iff)
  have clean: "trim p \<noteq> [] \<longrightarrow>
      \<not> isWhiteSpace (hd (trim p)) \<and> \<not> isWhiteSpace (last (trim p))"
    using trim_ends [of p] by blast
  from found result none day ends clean show ?thesis
    unfolding Let_def midnight_def [symmetric] lower_def [symmetric] upper_def [symmetric]
      loaded_def [symmetric]
    by blast
qed

theorem C2_candidates_and_result_witness:
  "windowValid (fixedOffset 0) day_2024_03_01 \<and>
   findAppointments drA_store (buildQuery (fixedOffset 0) ''Dr. A'' day_2024_03_01 None) =
     [drA_appointment] \<and>
   checkConflict (fixedOffset 0) drA_store ''Dr. A'' day_2024_03_01 ''13:30'' ''14:30'' None \<and>
   findAppointments drA_store (buildQuery (fixedOffset 0) ''Dr. A'' day_2024_03_01 (Some 1)) = [] \<and>
   \<not> checkConflict (fixedOffset 0) drA_store ''Dr. A'' day_2024_03_01 ''13:30'' ''14:30'' (Some 1) \<and>
   steadyOffset (fixedOffset 0) day_2024_03_01 0 \<and>
   trim ''Dr. A'' \<noteq> [] \<and>
   \<not> isWhiteSpace (last (trim ''Dr. A''))"
proof -
  note open_query =
    C2_candidates_and_result [OF drA_windowValid, where p = "''Dr. A''" and store = drA_store
      and excludeId = None and newStart = "''13:30''" and newEnd = "''14:30''" and c = 0
      and t = day_2024_03_01, unfolded Let_def]
  note self_query =
    C2_candidates_and_result [OF drA_windowValid, where p = "''Dr. A''" and store = drA_store
      and excludeId = "Some 1" and newStart = "''13:30''" and newEnd = "''14:30''" and c = 0
      and t = day_2024_03_01, unfolded Let_def]
  note evaluate = fixedOffset_def day_2024_03_01_def drA_store_def drA_appointment_def trim_drA
  have f1: "findAppointments drA_store (buildQuery (fixedOffset 0) ''Dr. A'' day_2024_03_01 None) =
      [drA_appointment]"
    using open_query [THEN conjunct1] by (simp add: evaluate)
  have f2: "findAppointments drA_store
      (buildQuery (fixedOffset 0) ''Dr. A'' day_2024_03_01 (Some 1)) = []"
    using self_query [THEN conjunct1] by (simp add: evaluate)
  have r1: "checkConflict (fixedOffset 0) drA_store ''Dr. A'' day_2024_03_01 ''13:30'' ''14:30'' None"
    using open_query [THEN conjunct2, THEN conjunct1] by (simp add: evaluate)
  have r2: "\<not> checkConflict (fixedOffset 0) drA_store ''Dr. A'' day_2024_03_01
      ''13:30'' ''14:30'' (Some 1)"
    using self_query [THEN conjunct2, THEN conjunct1] by (simp add: evaluate)
  have nonempty: "trim ''Dr. A'' \<noteq> []"
    by (simp add: trim_drA)
  with open_query have clean: "\<not> isWhiteSpace (last (trim ''Dr. A''))"
    by blast
  from drA_windowValid f1 f2 r1 r2 steadyOffset_fixed [of 0 day_2024_03_01] nonempty clean
  show ?thesis
    by blast
qed

text \<open>
  Claim C2 as stated takes the candidates from the appointments of the given practitioner.
  Given "Dr. A" followed by a space, no stored appointment carries that name, yet the query
  is cast through the schema's \<open>trim\<close> setter, loads the appointment of "Dr. A" and
  \<open>checkConflict\<close> returns true.
\<close>

theorem C2_given_practitioner_counterexample:
  "filter (\<lambda>app. practitioner app = ''Dr. A '') drA_store = [] \<and>
   findAppointments drA_store (buildQuery (fixedOffset 0) ''Dr. A '' day_2024_03_01 None) =
     [drA_appointment] \<and>
   checkConflict (fixedOffset 0) drA_store ''Dr. A '' day_2024_03_01 ''14:30'' ''14:45'' None"
proof -
  have c: "isCandidate (fixedOffset 0) ''Dr. A '' day_2024_03_01 None drA_appointment"
    using drA_isCandidate [of 0] by (simp add: isCandidate_def trim_drA)
  then have "findAppointments drA_store
      (buildQuery (fixedOffset 0) ''Dr. A '' day_2024_03_01 None) = [drA_appointment]"
    by (simp add: findAppointments_def matchesQuery_iff drA_store_def)
  moreover have "conflictsWith ''14:30'' ''14:45'' drA_appointment"
    by (simp add: conflictsWith_def startInsideExisting_def drA_times)
  with c have "checkConflict (fixedOffset 0) drA_store ''Dr. A '' day_2024_03_01
      ''14:30'' ''14:45'' None"
    by (simp add: checkConflict_iff drA_store_def)
  moreover have "filter (\<lambda>app. practitioner app = ''Dr. A '') drA_store = []"
    by (simp add: drA_store_def drA_appointment_def)
  ultimately show ?thesis
    by blast
qed

text \<open>
  Claim C3. An appointment with status Cancelled or No-Show is never in the candidate list:
  storing it anywhere changes neither the candidates nor the result, and alone in the
  store it yields no conflict, whatever its interval.
\<close>

theorem C3_cancelled_never_conflicts:
  assumes "status app = Cancelled \<or> status app = NoShow"
  shows "app \<notin> set (candidates tz store p d excludeId) \<and>
         candidates tz (xs @ app # ys) p d excludeId = candidates tz (xs @ ys) p d excludeId \<and>
         checkConflict tz (xs @ app # ys) p d newStart newEnd excludeId =
           checkConflict tz (xs @ ys) p d newStart newEnd excludeId \<and>
         \<not> checkConflict tz [app] p d newStart newEnd excludeId"
proof -
  from assms have nc: "\<not> isCandidate tz p d excludeId app"
    by (auto simp: isCandidate_def notCancelled_def)
  then have a: "app \<notin> set (candidates tz store p d excludeId)"
    by (simp add: set_candidates)
  from nc have b: "candidates tz (xs @ app # ys) p d excludeId = candidates tz (xs @ ys) p d excludeId"
    by (simp add: candidates_def findAppointments_def matchesQuery_iff)
  then have c: "checkConflict tz (xs @ app # ys) p d newStart newEnd excludeId =
           checkConflict tz (xs @ ys) p d newStart newEnd excludeId"
    by (simp add: checkConflict_def candidates_def)
  from nc have e: "\<not> checkConflict tz [app] p d newStart newEnd excludeId"
    by (simp add: checkConflict_iff)
  from a b c e show ?thesis
    by blast
qed

theorem C3_cancelled_never_conflicts_witness:
  "(status (drA_appointment\<lparr>status := Cancelled\<rparr>) = Cancelled \<or>
    status (drA_appointment\<lparr>status := Cancelled\<rparr>) = NoShow) \<and>
   \<not> checkConflict (fixedOffset 0) [drA_appointment\<lparr>status := Cancelled\<rparr>] ''Dr. A'' day_2024_03_01
       ''14:00'' ''15:00'' None \<and>
   \<not> checkConflict (fixedOffset 0) [drA_appointment\<lparr>status := NoShow\<rparr>] ''Dr. A'' day_2024_03_01
       ''14:00'' ''15:00'' None \<and>
   checkConflict (fixedOffset 0) [drA_appointment] ''Dr. A'' day_2024_03_01 ''14:00'' ''15:00'' None"
proof -
  have h1: "status (drA_appointment\<lparr>status := Cancelled\<rparr>) = Cancelled \<or>
    status (drA_appointment\<lparr>status := Cancelled\<rparr>) = NoShow"
    by simp
  have h2: "status (drA_appointment\<lparr>status := NoShow\<rparr>) = Cancelled \<or>
    status (drA_appointment\<lparr>status := NoShow\<rparr>) = NoShow"
    by simp
  have live: "checkConflict (fixedOffset 0) [drA_appointment] ''Dr. A'' day_2024_03_01 ''14:00'' ''15:00'' None"
    using drA_isCandidate [of 0]
    by (simp add: checkConflict_iff conflictsWith_def startInsideExisting_def)
       (simp add: drA_appointment_def)
  from C3_cancelled_never_conflicts [OF h1, of "fixedOffset 0" "[]" "''Dr. A''" day_2024_03_01 None "[]" "[]"
      "''14:00''" "''15:00''"]
    C3_cancelled_never_conflicts [OF h2, of "fixedOffset 0" "[]" "''Dr. A''" day_2024_03_01 None "[]" "[]"
      "''14:00''" "''15:00''"] h1 live
  show ?thesis
    by blast
qed

text \<open>
  Claim C4. Back-to-back intervals do not conflict. With \<open>a < b < c\<close>, an existing
  \<open>[a, b)\<close> against a proposed \<open>[b, c)\<close> and an existing \<open>[b, c)\<close> against a
  proposed \<open>[a, b)\<close> both give false; in a larger store the back-to-back appointment
  leaves the result as it is without it.
\<close>

theorem C4_back_to_back_no_conflict:
  assumes "a < b" and "b < c"
    and "startTime first = a" "endTime first = b"
    and "startTime second = b" "endTime second = c"
  shows "\<not> checkConflict tz [first] p d b c excludeId \<and>
         \<not> checkConflict tz [second] p d a b excludeId \<and>
         checkConflict tz (xs @ first # ys) p d b c excludeId =
           checkConflict tz (xs @ ys) p d b c excludeId \<and>
         checkConflict tz (xs @ second # ys) p d a b excludeId =
           checkConflict tz (xs @ ys) p d a b excludeId"
proof -
  from assms have after: "\<not> conflictsWith b c first"
    by (auto simp: conflictsWith_def startInsideExisting_def endInsideExisting_def
        containsExisting_def)
  from assms have before: "\<not> conflictsWith a b second"
    by (auto simp: conflictsWith_def startInsideExisting_def endInsideExisting_def
        containsExisting_def)
  from after before show ?thesis
    by (simp add: checkConflict_single checkConflict_skip)
qed

theorem C4_back_to_back_no_conflict_witness:
  "(''13:00'' :: string) < ''14:00'' \<and> (''14:00'' :: string) < ''15:00'' \<and>
   isCandidate (fixedOffset 0) ''Dr. A'' day_2024_03_01 None drA_appointment \<and>
   isCandidate (fixedOffset 0) ''Dr. A'' day_2024_03_01 None
     (drA_appointment\<lparr>startTime := ''13:00'', endTime := ''14:00''\<rparr>) \<and>
   \<not> checkConflict (fixedOffset 0) [drA_appointment\<lparr>startTime := ''13:00'', endTime := ''14:00''\<rparr>]
       ''Dr. A'' day_2024_03_01 ''14:00'' ''15:00'' None \<and>
   \<not> checkConflict (fixedOffset 0) [drA_appointment] ''Dr. A'' day_2024_03_01 ''13:00'' ''14:00'' None"
proof -
  have h1: "(''13:00'' :: string) < ''14:00''" and h2: "(''14:00'' :: string) < ''15:00''"
    by simp_all
  have c1: "isCandidate (fixedOffset 0) ''Dr. A'' day_2024_03_01 None drA_appointment"
    by (rule drA_isCandidate)
  then have c2: "isCandidate (fixedOffset 0) ''Dr. A'' day_2024_03_01 None
     (drA_appointment\<lparr>startTime := ''13:00'', endTime := ''14:00''\<rparr>)"
    by (simp add: isCandidate_def notCancelled_def notExcluded_def)
  from C4_back_to_back_no_conflict [OF h1 h2,
      of "drA_appointment\<lparr>startTime := ''13:00'', endTime := ''14:00''\<rparr>" drA_appointment
         "fixedOffset 0" "''Dr. A''" day_2024_03_01 None "[]" "[]"]
    h1 h2 c1 c2
  show ?thesis
    by (simp add: drA_times)
qed





text \<open>
  Claim C7, as the code has it. Self-update: if every candidate has a well-formed interval
  and appointment \<open>a\<close> is the only candidate whose half-open interval overlaps the
  proposed one (every such candidate carries the identifier of \<open>a\<close>), then the check
  without exclusion reports the conflict and the check with \<open>excludeId\<close> equal to the
  identifier of \<open>a\<close> returns false.
\<close>

theorem C7_self_update_excluded:
  assumes "a \<in> set store" and "isCandidate tz p d None a"
    and "overlaps (proposed i p d newStart newEnd st) a"
    and wfs: "\<forall>b \<in> set store. isCandidate tz p d None b \<longrightarrow> wellFormed b"
    and only: "\<forall>b \<in> set store. isCandidate tz p d None b \<and>
                 overlaps (proposed i p d newStart newEnd st) b \<longrightarrow> app_id b = app_id a"
  shows "checkConflict tz store p d newStart newEnd None \<and>
         \<not> checkConflict tz store p d newStart newEnd (Some (app_id a))"
proof -
  let ?new = "proposed i p d newStart newEnd st"
  have times: "startTime ?new = newStart" "endTime ?new = newEnd"
    by (simp_all add: proposed_def)
  from assms(3) have "conflictsWith newStart newEnd a"
    using times by (rule overlaps_imp_conflictsWith)
  with assms(1,2) have unexcluded: "checkConflict tz store p d newStart newEnd None"
    by (auto simp: checkConflict_iff)
  from assms(3) have "wellFormed ?new"
    by (auto simp: overlaps_def wellFormed_def)
  have "\<not> checkConflict tz store p d newStart newEnd (Some (app_id a))"
  proof
    assume "checkConflict tz store p d newStart newEnd (Some (app_id a))"
    then obtain b where b: "b \<in> set store" "isCandidate tz p d (Some (app_id a)) b"
      "conflictsWith newStart newEnd b"
      by (auto simp: checkConflict_iff)
    then have c: "isCandidate tz p d None b" and other: "app_id b \<noteq> app_id a"
      by (auto simp: isCandidate_def notExcluded_def)
    from b c wfs have "wellFormed b"
      by blast
    with b(3) \<open>wellFormed ?new\<close> times have "overlaps ?new b"
      using conflictsWith_imp_overlaps by blast
    with b c only other show False
      by blast
  qed
  with unexcluded show ?thesis
    by blast
qed

theorem C7_self_update_excluded_witness:
  "drA_appointment \<in> set [drA_appointment, drA_later] \<and>
   isCandidate (fixedOffset 0) ''Dr. A'' day_2024_03_01 None drA_appointment \<and>
   overlaps (proposed 9 ''Dr. A'' day_2024_03_01 ''14:30'' ''15:30'' Scheduled) drA_appointment \<and>
   filter (isCandidate (fixedOffset 0) ''Dr. A'' day_2024_03_01 None)
     [drA_appointment, drA_later] = [drA_appointment, drA_later] \<and>
   list_all wellFormed [drA_appointment, drA_later] \<and>
   filter (\<lambda>b. isCandidate (fixedOffset 0) ''Dr. A'' day_2024_03_01 None b \<and>
                overlaps (proposed 9 ''Dr. A'' day_2024_03_01 ''14:30'' ''15:30'' Scheduled) b)
     [drA_appointment, drA_later] = [drA_appointment] \<and>
   checkConflict (fixedOffset 0) [drA_appointment, drA_later] ''Dr. A'' day_2024_03_01
     ''14:30'' ''15:30'' None \<and>
   \<not> checkConflict (fixedOffset 0) [drA_appointment, drA_later] ''Dr. A'' day_2024_03_01
       ''14:30'' ''15:30'' (Some 1)"
proof -
  let ?new = "proposed 9 ''Dr. A'' day_2024_03_01 ''14:30'' ''15:30'' Scheduled"
  have m: "drA_appointment \<in> set [drA_appointment, drA_later]"
    by simp
  have c: "isCandidate (fixedOffset 0) ''Dr. A'' day_2024_03_01 None drA_appointment"
    by (rule drA_isCandidate)
  have c': "isCandidate (fixedOffset 0) ''Dr. A'' day_2024_03_01 None drA_later"
    by (rule drA_later_isCandidate)
  have x: "overlaps ?new drA_appointment"
    by (simp add: overlaps_def proposed_def drA_times)
  have x': "\<not> overlaps ?new drA_later"
    by (simp add: overlaps_def proposed_def drA_later_def)
  have wf: "wellFormed drA_appointment" "wellFormed drA_later"
    by (simp_all add: wellFormed_def drA_times drA_later_def)
  have wfs: "\<forall>b \<in> set [drA_appointment, drA_later].
      isCandidate (fixedOffset 0) ''Dr. A'' day_2024_03_01 None b \<longrightarrow> wellFormed b"
    using wf by simp
  have only: "\<forall>b \<in> set [drA_appointment, drA_later].
      isCandidate (fixedOffset 0) ''Dr. A'' day_2024_03_01 None b \<and> overlaps ?new b
        \<longrightarrow> app_id b = app_id drA_appointment"
    using x' by simp
  from C7_self_update_excluded [OF m c x wfs only] m c c' x x' wf
  show ?thesis
    by (simp add: drA_times)
qed

text \<open>
  Claim C7 as stated has no condition on the stored intervals. With a stored appointment
  of no duration at 14:30, the hour from 14:00 to 15:00 is the only candidate whose interval
  overlaps a proposed 14:00 to 15:00, yet excluding it leaves the third disjunct true on the
  other: \<open>checkConflict\<close> returns true.
\<close>

theorem C7_only_overlap_counterexample:
  "filter (isCandidate (fixedOffset 0) ''Dr. A'' day_2024_03_01 None)
     [drA_appointment, drA_instant] = [drA_appointment, drA_instant] \<and>
   filter (overlaps (proposed 9 ''Dr. A'' day_2024_03_01 ''14:00'' ''15:00'' Scheduled))
     [drA_appointment, drA_instant] = [drA_appointment] \<and>
   checkConflict (fixedOffset 0) [drA_appointment, drA_instant] ''Dr. A'' day_2024_03_01
     ''14:00'' ''15:00'' (Some (app_id drA_appointment))"
proof -
  have c: "isCandidate (fixedOffset 0) ''Dr. A'' day_2024_03_01 None drA_appointment"
    by (rule drA_isCandidate)
  have c': "isCandidate (fixedOffset 0) ''Dr. A'' day_2024_03_01 None drA_instant"
    by (rule drA_instant_isCandidate)
  have "overlaps (proposed 9 ''Dr. A'' day_2024_03_01 ''14:00'' ''15:00'' Scheduled)
      drA_appointment"
    by (simp add: overlaps_def proposed_def drA_times)
  moreover have "\<not> overlaps (proposed 9 ''Dr. A'' day_2024_03_01 ''14:00'' ''15:00'' Scheduled)
      drA_instant"
    by (simp add: overlaps_def proposed_def drA_instant_def)
  moreover from c' have "isCandidate (fixedOffset 0) ''Dr. A'' day_2024_03_01
      (Some (app_id drA_appointment)) drA_instant"
    by (simp add: isCandidate_def notExcluded_def drA_instant_def drA_times)
  moreover have "conflictsWith ''14:00'' ''15:00'' drA_instant"
    by (simp add: conflictsWith_def containsExisting_def drA_instant_def)
  ultimately show ?thesis
    using c c' by (simp add: checkConflict_iff)
qed

text \<open>
  Claim C8. The concrete scenario: "Dr. A" has one Scheduled appointment on 2024-03-01 from
  14:00 to 15:00. Proposing 14:30 to 14:45 gives true, 15:00 to 15:30 false, 13:00 to 14:00
  false and 13:30 to 14:30 true, in every zone of fixed offset.
\<close>

theorem C8_concrete_scenario:
  "checkConflict (fixedOffset tz) drA_store ''Dr. A'' day_2024_03_01 ''14:30'' ''14:45'' None = True \<and>
   checkConflict (fixedOffset tz) drA_store ''Dr. A'' day_2024_03_01 ''15:00'' ''15:30'' None = False \<and>
   checkConflict (fixedOffset tz) drA_store ''Dr. A'' day_2024_03_01 ''13:00'' ''14:00'' None = False \<and>
   checkConflict (fixedOffset tz) drA_store ''Dr. A'' day_2024_03_01 ''13:30'' ''14:30'' None = True"
proof -
  have one: "checkConflict (fixedOffset tz) drA_store ''Dr. A'' day_2024_03_01 s e None =
      conflictsWith s e drA_appointment" for s e
    by (simp add: drA_store_def checkConflict_single drA_isCandidate)
  show ?thesis
    unfolding one
    by (simp add: conflictsWith_def startInsideExisting_def endInsideExisting_def
        containsExisting_def drA_times)
qed

theorem C8_concrete_scenario_witness:
  "checkConflict (fixedOffset 0) drA_store ''Dr. A'' 1709251200000 ''14:30'' ''14:45'' None \<and>
   \<not> checkConflict (fixedOffset 0) drA_store ''Dr. A'' 1709251200000 ''15:00'' ''15:30'' None \<and>
   \<not> checkConflict (fixedOffset 0) drA_store ''Dr. A'' 1709251200000 ''13:00'' ''14:00'' None \<and>
   checkConflict (fixedOffset 0) drA_store ''Dr. A'' 1709251200000 ''13:30'' ''14:30'' None"
  using C8_concrete_scenario [of 0] by (simp add: day_2024_03_01_def)



section \<open>Creating a patient\<close>

text \<open>
  Claim C10, as the code has it. If the lookup finds a patient with the given idNumber,
  \<open>createPatient\<close> throws the error 'Patient with this ID number already exists' with
  status code 400 and the store is unchanged. If the lookup finds none and \<open>Patient.create\<close>
  returns a document, \<open>createPatient\<close> returns that document and the store is the one
  \<open>Patient.create\<close> left. If the lookup or \<open>Patient.create\<close> throws, the error is thrown
  again and the store is unchanged. Every error thrown carries a status code, which is 500
  when the error had none (or zero) and its own otherwise.
\<close>

theorem C10_createPatient_outcomes:
  "(findOne store (pd_idNumber pd) = Inr (Some existing) \<longrightarrow>
      createPatient findOne create store pd =
        (Inl \<lparr>message = ''Patient with this ID number already exists'', statusCode = Some 400\<rparr>,
         store)) \<and>
   (findOne store (pd_idNumber pd) = Inr None \<and> create store pd = Inr (doc, store') \<longrightarrow>
      createPatient findOne create store pd = (Inr doc, store')) \<and>
   (findOne store (pd_idNumber pd) = Inr None \<and> create store pd = Inl err \<longrightarrow>
      createPatient findOne create store pd = (Inl (catchBlock err), store)) \<and>
   (findOne store (pd_idNumber pd) = Inl err \<longrightarrow>
      createPatient findOne create store pd = (Inl (catchBlock err), store)) \<and>
   (createPatient findOne create store pd = (Inl e, s) \<longrightarrow>
      s = store \<and> (\<exists>c. statusCode e = Some c \<and> c \<noteq> 0)) \<and>
   message (catchBlock err) = message err \<and>
   statusCode (catchBlock err) =
     (if statusCode err = None \<or> statusCode err = Some 0 then Some 500 else statusCode err)"
proof -
  have dup: "findOne store (pd_idNumber pd) = Inr (Some existing) \<longrightarrow>
      createPatient findOne create store pd =
        (Inl \<lparr>message = ''Patient with this ID number already exists'', statusCode = Some 400\<rparr>,
         store)"
    by (simp add: createPatient_def catchBlock_duplicate)
  have ok: "findOne store (pd_idNumber pd) = Inr None \<and> create store pd = Inr (doc, store') \<longrightarrow>
      createPatient findOne create store pd = (Inr doc, store')"
    by (simp add: createPatient_def)
  have rejected: "findOne store (pd_idNumber pd) = Inr None \<and> create store pd = Inl err \<longrightarrow>
      createPatient findOne create store pd = (Inl (catchBlock err), store)"
    by (simp add: createPatient_def)
  have lookup: "findOne store (pd_idNumber pd) = Inl err \<longrightarrow>
      createPatient findOne create store pd = (Inl (catchBlock err), store)"
    by (simp add: createPatient_def)
  have coded: "createPatient findOne create store pd = (Inl e, s) \<longrightarrow>
      s = store \<and> (\<exists>c. statusCode e = Some c \<and> c \<noteq> 0)"
    using createPatient_error [of findOne create store pd e s] catchBlock_truthy
    by blast
  from dup ok rejected lookup coded catchBlock_message [of err] catchBlock_statusCode [of err]
  show ?thesis
    by blast
qed

theorem C10_createPatient_outcomes_witness:
  "memFindOne [anaPatient] (pd_idNumber anaData) = Inr (Some anaPatient) \<and>
   createPatient memFindOne memCreate [anaPatient] anaData =
     (Inl \<lparr>message = ''Patient with this ID number already exists'', statusCode = Some 400\<rparr>,
      [anaPatient]) \<and>
   memFindOne [] (pd_idNumber anaData) = Inr None \<and>
   memCreate [] anaData = Inr (anaPatient, [anaPatient]) \<and>
   createPatient memFindOne memCreate [] anaData = (Inr anaPatient, [anaPatient]) \<and>
   memFindOne [] (pd_idNumber namelessData) = Inr None \<and>
   memCreate [] namelessData =
     Inl \<lparr>message = ''Patient validation failed: firstName: First name is required'',
          statusCode = None\<rparr> \<and>
   createPatient memFindOne memCreate [] namelessData =
     (Inl (catchBlock
        \<lparr>message = ''Patient validation failed: firstName: First name is required'',
         statusCode = None\<rparr>), [])"
proof -
  note dup = C10_createPatient_outcomes [of memFindOne "[anaPatient]" anaData anaPatient memCreate,
      THEN conjunct1, rule_format, OF memFindOne_ana]
  note fresh = C10_createPatient_outcomes [of memFindOne "[]" anaData _ memCreate anaPatient
      "[anaPatient]", THEN conjunct2, THEN conjunct1, rule_format,
      OF conjI, OF memFindOne_empty memCreate_ana]
  note rejected = C10_createPatient_outcomes [of memFindOne "[]" namelessData _ memCreate _ _
      "\<lparr>message = ''Patient validation failed: firstName: First name is required'',
        statusCode = None\<rparr>",
      THEN conjunct2, THEN conjunct2, THEN conjunct1, rule_format,
      OF conjI, OF memFindOne_empty memCreate_nameless]
  from dup fresh rejected memFindOne_ana memFindOne_empty [of "pd_idNumber anaData"]
    memFindOne_empty [of "pd_idNumber namelessData"] memCreate_ana memCreate_nameless
  show ?thesis
    by blast
qed

text \<open>
  Claim C10 as stated promises the new patient whenever no patient with the idNumber exists.
  On the empty store, data without a first name is rejected by the schema's
  \<open>required\<close> validator: no patient is created and the error carries status code 500.
\<close>

theorem C10_created_whenever_absent_counterexample:
  "memFindOne [] (pd_idNumber namelessData) = Inr None \<and>
   createPatient memFindOne memCreate [] namelessData =
     (Inl \<lparr>message = ''Patient validation failed: firstName: First name is required'',
           statusCode = Some 500\<rparr>, [])"
  by (simp add: createPatient_def memFindOne_empty memCreate_nameless catchBlock_def
      falsyStatusCode_def)

end
